theory Spec2Isabelle
  imports Main "HOL-Library.Monad_Syntax"
begin

section \<open>JavaScript values\<close>

text \<open>
  The dialogs pass plain JavaScript values around: the order record, the recognizer's
  result, the results of prompts. A value is \<open>undefined\<close>, \<open>null\<close>, a boolean, a number
  (integers are enough for the payloads read here), a string, an array or an object.
  An object is an association list from property names to values; the first binding of a
  name is the one that is read.
\<close>

datatype jsval =
    Undefined
  | Null
  | JBool bool
  | JNum int
  | JStr string
  | JArr "jsval list"
  | JObj "(string \<times> jsval) list"

type_synonym jsobj = "(string \<times> jsval) list"

text \<open>What \<open>if (v)\<close> and \<open>!v\<close> test: the falsy values are \<open>undefined\<close>, \<open>null\<close>, \<open>false\<close>,
  \<open>0\<close> and the empty string; every array and every object is truthy.\<close>

fun truthy :: "jsval \<Rightarrow> bool" where
  "truthy Undefined = False"
| "truthy Null = False"
| "truthy (JBool b) = b"
| "truthy (JNum n) = (n \<noteq> 0)"
| "truthy (JStr s) = (s \<noteq> [])"
| "truthy (JArr xs) = True"
| "truthy (JObj kvs) = True"

text \<open>\<open>o.k\<close> on an object that is known to be one: a missing property reads \<open>undefined\<close>.\<close>

definition get :: "jsobj \<Rightarrow> string \<Rightarrow> jsval" where
  "get obj k = (case map_of obj k of None \<Rightarrow> Undefined | Some v \<Rightarrow> v)"

text \<open>\<open>o.k = v\<close>: an existing binding is overwritten in place, a new one is appended.\<close>

fun put :: "jsobj \<Rightarrow> string \<Rightarrow> jsval \<Rightarrow> jsobj" where
  "put [] k v = [(k, v)]"
| "put ((k', v') # kvs) k v = (if k' = k then (k, v) # kvs else (k', v') # put kvs k v)"

text \<open>
  \<open>v.k\<close> on an arbitrary value. Reading a property of \<open>undefined\<close> or \<open>null\<close> throws a
  TypeError, which is \<open>None\<close> here. The names read in this program (\<open>entities\<close>,
  \<open>$instance\<close>, \<open>Deliver\<close>, \<open>text\<close>, \<open>ItemList\<close>, \<open>datetime\<close>, \<open>timex\<close>) are not built-in
  properties of strings, numbers, booleans or arrays, so there they read \<open>undefined\<close>.
\<close>

fun getprop :: "jsval \<Rightarrow> string \<Rightarrow> jsval option" where
  "getprop Undefined k = None"
| "getprop Null k = None"
| "getprop (JObj kvs) k = Some (get kvs k)"
| "getprop v k = Some Undefined"

text \<open>The decimal spelling of a number, as \<open>String(n)\<close> gives it.\<close>

fun digits :: "nat \<Rightarrow> string" where
  "digits n =
     (if n < 10 then [''0123456789'' ! n] else digits (n div 10) @ [''0123456789'' ! (n mod 10)])"

declare digits.simps [simp del]

definition show_int :: "int \<Rightarrow> string" where
  "show_int i = (if i < 0 then CHR ''-'' # digits (nat (- i)) else digits (nat i))"

text \<open>\<open>v[i]\<close>: an array element, a one-character string, the property named by the
  index on an object; out of range it is \<open>undefined\<close>; on \<open>undefined\<close> and \<open>null\<close> it throws.\<close>

fun getidx :: "jsval \<Rightarrow> nat \<Rightarrow> jsval option" where
  "getidx Undefined i = None"
| "getidx Null i = None"
| "getidx (JArr xs) i = Some (if i < length xs then xs ! i else Undefined)"
| "getidx (JStr s) i = Some (if i < length s then JStr [s ! i] else Undefined)"
| "getidx (JObj kvs) i = Some (get kvs (digits i))"
| "getidx v i = Some Undefined"

text \<open>\<open>xs.join(sep)\<close> on strings.\<close>

fun join :: "string \<Rightarrow> string list \<Rightarrow> string" where
  "join sep [] = []"
| "join sep [x] = x"
| "join sep (x # y # ys) = x @ sep @ join sep (y # ys)"

text \<open>\<open>String(v)\<close>, which a template literal applies to each \<open>${...}\<close>. An array is its
  elements joined by commas, \<open>undefined\<close> and \<open>null\<close> elements giving the empty string.\<close>

fun toString :: "jsval \<Rightarrow> string" where
  "toString Undefined = ''undefined''"
| "toString Null = ''null''"
| "toString (JBool b) = (if b then ''true'' else ''false'')"
| "toString (JNum n) = show_int n"
| "toString (JStr s) = s"
| "toString (JArr xs) =
     join '','' (map (\<lambda>x. if x = Undefined \<or> x = Null then [] else toString x) xs)"
| "toString (JObj kvs) = ''[object Object]''"

text \<open>\<open>s.split(c)[0]\<close> and \<open>s.split(c)\<close> for a one-character separator: the pieces
  between the occurrences of \<open>c\<close>; there is always at least one piece.\<close>

fun split_on :: "char \<Rightarrow> string \<Rightarrow> string list" where
  "split_on c [] = [[]]"
| "split_on c (x # xs) =
     (if x = c then [] # split_on c xs
      else (case split_on c xs of [] \<Rightarrow> [[x]] | p # ps \<Rightarrow> (x # p) # ps))"

text \<open>\<open>v.split(c)\<close>: only a string has the method; calling it on any other value
  (where \<open>v.split\<close> is \<open>undefined\<close>) throws a TypeError.\<close>

fun split :: "jsval \<Rightarrow> char \<Rightarrow> jsval option" where
  "split (JStr s) c = Some (JArr (map JStr (split_on c s)))"
| "split v c = None"

section \<open>The recognizer wrapper (orderRecognizer.js)\<close>

text \<open>
  \<open>OrderRecognizer\<close> holds a \<open>LuisRecognizer\<close> when the configuration is complete and
  nothing otherwise. The recognizer service itself is outside the repository: here it is a
  function from the turn's activity to the recognizer's result, obtained from the
  configuration by the parameter \<open>LuisRecognizer\<close> of the constructor.
\<close>

record OrderRecognizer =
  recognizer :: "(jsval \<Rightarrow> jsval) option"

text \<open>\<open>config && config.applicationId && config.endpointKey && config.endpoint\<close>:
  each \<open>&&\<close> yields its left operand when that is falsy and its right operand otherwise.\<close>

definition luisIsConfigured :: "jsval \<Rightarrow> jsval option" where
  "luisIsConfigured config =
     (if \<not> truthy config then Some config
      else do {
        applicationId \<leftarrow> getprop config ''applicationId'';
        if \<not> truthy applicationId then Some applicationId
        else do {
          endpointKey \<leftarrow> getprop config ''endpointKey'';
          if \<not> truthy endpointKey then Some endpointKey
          else getprop config ''endpoint''
        }
      })"

definition OrderRecognizer_new :: "(jsval \<Rightarrow> jsval \<Rightarrow> jsval) \<Rightarrow> jsval \<Rightarrow> OrderRecognizer option" where
  "OrderRecognizer_new LuisRecognizer config =
     do {
       configured \<leftarrow> luisIsConfigured config;
       Some \<lparr>recognizer = (if truthy configured then Some (LuisRecognizer config) else None)\<rparr>
     }"

definition isConfigured :: "OrderRecognizer \<Rightarrow> bool" where
  "isConfigured this = (recognizer this \<noteq> None)"

text \<open>\<open>this.recognizer.recognize(context)\<close>: without a recognizer the property read throws.\<close>

definition executeLuisQuery :: "OrderRecognizer \<Rightarrow> jsval \<Rightarrow> jsval option" where
  "executeLuisQuery this context =
     (case recognizer this of None \<Rightarrow> None | Some recognize \<Rightarrow> Some (recognize context))"

definition getDeliverEntities :: "jsval \<Rightarrow> jsobj option" where
  "getDeliverEntities result =
     do {
       entities \<leftarrow> getprop result ''entities'';
       instance \<leftarrow> getprop entities ''$instance'';
       instDeliver \<leftarrow> getprop instance ''Deliver'';
       deliverValue \<leftarrow>
         (if truthy instDeliver
          then do { d0 \<leftarrow> getidx instDeliver 0; getprop d0 ''text'' }
          else Some Undefined);
       deliverItemListValue \<leftarrow>
         (if truthy deliverValue
          then do {
            deliver \<leftarrow> getprop entities ''Deliver'';
            d0 \<leftarrow> getidx deliver 0;
            itemList \<leftarrow> getprop d0 ''ItemList'';
            if truthy itemList
            then do { i0 \<leftarrow> getidx itemList 0; getidx i0 0 }
            else Some Undefined
          }
          else Some Undefined);
       Some [(''deliver'', deliverValue), (''itemList'', deliverItemListValue)]
     }"

definition getDeliveryDate :: "jsval \<Rightarrow> jsval option" where
  "getDeliveryDate result =
     do {
       entities \<leftarrow> getprop result ''entities'';
       datetimeEntity \<leftarrow> getprop entities ''datetime'';
       if \<not> truthy datetimeEntity then Some Undefined
       else do {
         d0 \<leftarrow> getidx datetimeEntity 0;
         if \<not> truthy d0 then Some Undefined
         else do {
           timex \<leftarrow> getprop d0 ''timex'';
           if \<not> truthy timex then Some Undefined
           else do {
             t0 \<leftarrow> getidx timex 0;
             if \<not> truthy t0 then Some Undefined
             else do {
               parts \<leftarrow> split t0 CHR ''T'';
               getidx parts 0
             }
           }
         }
       }
     }"

section \<open>Waterfall steps and their results\<close>

text \<open>
  A waterfall step reads its \<open>stepContext\<close> (the turn's activity \<open>stepContext.context\<close>, here \<open>turnContext\<close>; the options the dialog
  was begun with, the result of the previous step) and ends with one call on it:
  \<open>prompt\<close>, \<open>beginDialog\<close>, \<open>next\<close>, \<open>endDialog\<close> or \<open>replaceDialog\<close>. On the way it may
  send activities and assign to the options object, which the later steps see.
\<close>

record step_context =
  turnContext :: jsval
  options :: jsobj
  result :: jsval

datatype turn =
    Prompt string string
  | BeginDialog string jsval
  | Next jsval
  | EndDialog jsval
  | ReplaceDialog string jsval

datatype event =
    SendActivity string
  | LuisQuery jsval
  | ConsoleLog string jsobj
  | Prompted string string
  | Began string jsval

record step_result =
  options_after :: jsobj
  sent :: "event list"
  returned :: turn

type_synonym step = "step_context \<Rightarrow> step_result option"

section \<open>The order form (orderDialog.js)\<close>

definition CONFIRM_PROMPT :: string where "CONFIRM_PROMPT = ''confirmPrompt''"
definition DATE_RESOLVER_DIALOG :: string where "DATE_RESOLVER_DIALOG = ''dateResolverDialog''"
definition TEXT_PROMPT :: string where "TEXT_PROMPT = ''textPrompt''"
definition WATERFALL_DIALOG :: string where "WATERFALL_DIALOG = ''waterfallDialog''"

text \<open>\<open>isAmbiguous\<close> asks the TIMEX library for the types of the expression; the library
  is not part of the repository, so its \<open>types\<close> getter is the parameter \<open>types\<close>.\<close>

definition isAmbiguous :: "(jsval \<Rightarrow> string set) \<Rightarrow> jsval \<Rightarrow> bool" where
  "isAmbiguous types timex = (''definite'' \<notin> types timex)"

definition itemStep :: step where
  "itemStep stepContext =
     (let orderDetails = options stepContext in
      if \<not> truthy (get orderDetails ''item'')
      then Some \<lparr>options_after = orderDetails, sent = [],
                  returned = Prompt TEXT_PROMPT ''What would you like to order?''\<rparr>
      else Some \<lparr>options_after = orderDetails, sent = [],
                  returned = Next (get orderDetails ''item'')\<rparr>)"

definition deliveryDateStep :: "(jsval \<Rightarrow> string set) \<Rightarrow> step" where
  "deliveryDateStep types stepContext =
     (let orderDetails = put (options stepContext) ''item'' (result stepContext) in
      if \<not> truthy (get orderDetails ''DeliveryDate'')
           \<or> isAmbiguous types (get orderDetails ''deliveryDate'')
      then Some \<lparr>options_after = orderDetails, sent = [],
                  returned = BeginDialog DATE_RESOLVER_DIALOG
                               (JObj [(''date'', get orderDetails ''deliveryDate'')])\<rparr>
      else Some \<lparr>options_after = orderDetails, sent = [],
                  returned = Next (get orderDetails ''deliveryDate'')\<rparr>)"

definition confirmStep :: step where
  "confirmStep stepContext =
     (let orderDetails = put (options stepContext) ''deliveryDate'' (result stepContext);
          messageText = ''Please confirm, I have you ordering: ''
                          @ toString (get orderDetails ''item'') @ '' on: ''
                          @ toString (get orderDetails ''deliveryDate'')
                          @ ''. Is this correct?''
      in Some \<lparr>options_after = orderDetails, sent = [],
                returned = Prompt CONFIRM_PROMPT messageText\<rparr>)"

definition OrderDialog_finalStep :: step where
  "OrderDialog_finalStep stepContext =
     (if result stepContext = JBool True
      then (let orderDetails = options stepContext in
            Some \<lparr>options_after = orderDetails, sent = [],
                  returned = EndDialog (JObj orderDetails)\<rparr>)
      else Some \<lparr>options_after = options stepContext, sent = [],
                  returned = EndDialog Undefined\<rparr>)"

definition OrderDialog_steps :: "(jsval \<Rightarrow> string set) \<Rightarrow> step list" where
  "OrderDialog_steps types = [itemStep, deliveryDateStep types, confirmStep, OrderDialog_finalStep]"

text \<open>What a component dialog keeps after its constructor: its id, the ids of the
  dialogs added to it, and the id of the dialog it starts with.\<close>

record ComponentDialog =
  dialog_id :: string
  dialogs :: "string list"
  initialDialogId :: string

type_synonym OrderDialog = ComponentDialog

text \<open>\<open>super(id || 'orderDialog')\<close> and the four \<open>addDialog\<close> calls. The id is a
  string when it is passed; \<open>None\<close> is the argument left out.\<close>

definition OrderDialog_new :: "string option \<Rightarrow> OrderDialog" where
  "OrderDialog_new ident =
     \<lparr>dialog_id = (case ident of
                     None \<Rightarrow> ''orderDialog''
                   | Some i \<Rightarrow> if truthy (JStr i) then i else ''orderDialog''),
      dialogs = [TEXT_PROMPT, CONFIRM_PROMPT, DATE_RESOLVER_DIALOG, WATERFALL_DIALOG],
      initialDialogId = WATERFALL_DIALOG\<rparr>"

section \<open>The main flow (mainDialog.js)\<close>

definition MAIN_WATERFALL_DIALOG :: string where "MAIN_WATERFALL_DIALOG = ''mainWaterfallDialog''"

datatype error = Error string

record MainDialog = ComponentDialog +
  luisRecognizer :: OrderRecognizer

text \<open>The constructor. An argument that was not passed (or is \<open>null\<close>) is \<open>None\<close>; an
  object is always truthy, so \<open>!luisRecognizer\<close> and \<open>!orderDialog\<close> test exactly that.\<close>

definition MainDialog_new :: "OrderRecognizer option \<Rightarrow> OrderDialog option \<Rightarrow> error + MainDialog" where
  "MainDialog_new luisRecognizer_arg orderDialog_arg =
     (case luisRecognizer_arg of
        None \<Rightarrow> Inl (Error ''[MainDialog]: Missing parameter 'luisRecognizer' is required'')
      | Some luis \<Rightarrow>
          (case orderDialog_arg of
             None \<Rightarrow> Inl (Error ''[MainDialog]: Missing parameter 'orderDialog' is required'')
           | Some orderDialog \<Rightarrow>
               Inr \<lparr>dialog_id = ''MainDialog'',
                    dialogs = [''TextPrompt'', dialog_id orderDialog, MAIN_WATERFALL_DIALOG],
                    initialDialogId = MAIN_WATERFALL_DIALOG,
                    luisRecognizer = luis\<rparr>))"

definition introStep :: "MainDialog \<Rightarrow> step" where
  "introStep this stepContext =
     (if \<not> isConfigured (luisRecognizer this)
      then Some \<lparr>options_after = options stepContext,
                  sent = [SendActivity (''NOTE: LUIS is not configured. To enable all capabilities, add ''
                            @ ''`LuisAppId`, `LuisAPIKey` and `LuisAPIHostName` to the .env file.'')],
                  returned = Next Undefined\<rparr>
      else (let restartMsg = get (options stepContext) ''restartMsg'';
                messageText =
                  (if truthy restartMsg then toString restartMsg
                   else ''What can I help you with today?'' @ [CHR 0x0A]
                          @ ''Say something like '' @ [CHR 0x22]
                          @ ''Deliver 10 kg rice on March 22, 2020'' @ [CHR 0x22])
            in Some \<lparr>options_after = options stepContext, sent = [],
                      returned = Prompt ''TextPrompt'' messageText\<rparr>))"

text \<open>\<open>showWarningForUnsupportedItems\<close>: the activities it sends.\<close>

definition showWarningForUnsupportedItems :: "jsobj \<Rightarrow> event list" where
  "showWarningForUnsupportedItems deliverEntities =
     (let unsupportedItems =
            (if truthy (get deliverEntities ''deliver'') \<and> \<not> truthy (get deliverEntities ''itemList'')
             then [get deliverEntities ''deliver''] else [])
      in if unsupportedItems \<noteq> []
         then [SendActivity (''Sorry but the following items are not deliverable: ''
                 @ join '', '' (map toString unsupportedItems))]
         else [])"

text \<open>\<open>actStep\<close>. \<open>LuisRecognizer.topIntent\<close> belongs to the recognizer library and is the
  parameter \<open>topIntent\<close>. A step that throws is \<open>None\<close>.\<close>

definition actStep :: "(jsval \<Rightarrow> string) \<Rightarrow> MainDialog \<Rightarrow> step" where
  "actStep topIntent this stepContext =
     (let orderDetails = [] in
      if \<not> isConfigured (luisRecognizer this)
      then Some \<lparr>options_after = options stepContext, sent = [],
                  returned = BeginDialog ''orderDialog'' (JObj orderDetails)\<rparr>
      else do {
        luisResult \<leftarrow> executeLuisQuery (luisRecognizer this) (turnContext stepContext);
        if topIntent luisResult = ''PlaceOrder''
        then do {
          deliverEntities \<leftarrow> getDeliverEntities luisResult;
          let warning = showWarningForUnsupportedItems deliverEntities;
          let orderDetails = put orderDetails ''item'' (get deliverEntities ''itemList'');
          deliveryDate \<leftarrow> getDeliveryDate luisResult;
          let orderDetails = put orderDetails ''deliveryDate'' deliveryDate;
          Some \<lparr>options_after = options stepContext,
                sent = [LuisQuery (turnContext stepContext)] @ warning
                         @ [ConsoleLog ''LUIS extracted these order details:'' orderDetails],
                returned = BeginDialog ''orderDialog'' (JObj orderDetails)\<rparr>
        }
        else Some \<lparr>options_after = options stepContext,
                    sent = [LuisQuery (turnContext stepContext),
                            SendActivity (''Sorry, I didn't get that. Please try asking in a different way (intent was ''
                              @ topIntent luisResult @ '')'')],
                    returned = Next Undefined\<rparr>
      })"

text \<open>\<open>finalStep\<close> of the main dialog. The natural-language rendering of the date
  (\<open>TimexProperty.toNaturalLanguage\<close> at the current time) is the parameter
  \<open>toNaturalLanguage\<close>.\<close>

definition MainDialog_finalStep :: "(jsval \<Rightarrow> string) \<Rightarrow> MainDialog \<Rightarrow> step" where
  "MainDialog_finalStep toNaturalLanguage this stepContext =
     (let restart = ReplaceDialog (initialDialogId this)
                      (JObj [(''restartMsg'', JStr ''What else can I do for you?'')])
      in if truthy (result stepContext)
         then do {
           deliveryDate \<leftarrow> getprop (result stepContext) ''deliveryDate'';
           item \<leftarrow> getprop (result stepContext) ''item'';
           let msg = ''I have ordered you '' @ toString item @ '' on ''
                       @ toNaturalLanguage deliveryDate @ ''.'';
           Some \<lparr>options_after = options stepContext, sent = [SendActivity msg],
                 returned = restart\<rparr>
         }
         else Some \<lparr>options_after = options stepContext, sent = [], returned = restart\<rparr>)"

definition MainDialog_steps ::
  "(jsval \<Rightarrow> string) \<Rightarrow> (jsval \<Rightarrow> string) \<Rightarrow> MainDialog \<Rightarrow> step list" where
  "MainDialog_steps topIntent toNaturalLanguage this =
     [introStep this, actStep topIntent this, MainDialog_finalStep toNaturalLanguage this]"

section \<open>Running a waterfall\<close>

text \<open>
  Modelled from the spec: the waterfall of the dialog library, which is outside the
  repository. The steps run in their order; a parent flow suspends into a child flow and
  resumes with its result. \<open>next(v)\<close> runs the following step at once with result \<open>v\<close>;
  \<open>prompt\<close> and \<open>beginDialog\<close> start a child dialog, and the following step runs with
  the child's result when the child has ended; \<open>endDialog(v)\<close> ends the waterfall with
  \<open>v\<close>, which its caller receives; after the last step the waterfall ends with the
  result handed on; a step that throws ends the run. The options object is kept between
  the steps.

  The run state holds the trace of what was sent and begun, the results that the pending
  prompts and sub-dialogs will yield, in order, and the activity of the current turn.
  Interruptions by the base class of the order form (\<open>cancelAndHelpDialog.js\<close>, not among
  the sources) are not part of a run.
\<close>

record run_state =
  trace :: "event list"
  pending :: "jsval list"
  activity :: jsval

datatype outcome = Ended jsval | Waiting | Replaced string jsval | Failed

type_synonym child = "string \<Rightarrow> jsval \<Rightarrow> run_state \<Rightarrow> outcome \<times> run_state"

fun waterfall :: "child \<Rightarrow> step list \<Rightarrow> jsobj \<Rightarrow> jsval \<Rightarrow> run_state \<Rightarrow> outcome \<times> run_state" where
  "waterfall child [] opts res st = (Ended res, st)"
| "waterfall child (s # ss) opts res st =
     (case s \<lparr>turnContext = activity st, options = opts, result = res\<rparr> of
        None \<Rightarrow> (Failed, st)
      | Some r \<Rightarrow>
          (let st1 = st\<lparr>trace := trace st @ sent r\<rparr> in
           case returned r of
             Next v \<Rightarrow> waterfall child ss (options_after r) v st1
           | EndDialog v \<Rightarrow> (Ended v, st1)
           | ReplaceDialog d opts' \<Rightarrow> (Replaced d opts', st1)
           | Prompt d m \<Rightarrow>
               (case child d (JObj [(''prompt'', JStr m)])
                       (st1\<lparr>trace := trace st1 @ [Prompted d m]\<rparr>) of
                  (Ended v, st2) \<Rightarrow> waterfall child ss (options_after r) v st2
                | (other, st2) \<Rightarrow> (other, st2))
           | BeginDialog d opts' \<Rightarrow>
               (case child d opts' (st1\<lparr>trace := trace st1 @ [Began d opts']\<rparr>) of
                  (Ended v, st2) \<Rightarrow> waterfall child ss (options_after r) v st2
                | (other, st2) \<Rightarrow> (other, st2))))"

text \<open>Modelled from the spec: the prompt channel, and a sub-dialog whose code is not
  followed step by step. It waits while no result is pending and otherwise ends with the
  next pending result. For the text prompt that result is the text of the user's reply,
  which is then the turn's activity.\<close>

definition awaits :: child where
  "awaits d opts st =
     (case pending st of
        [] \<Rightarrow> (Waiting, st)
      | v # vs \<Rightarrow> (Ended v, st\<lparr>pending := vs, activity := v\<rparr>))"

text \<open>The waterfall keeps \<open>options || {}\<close>.\<close>

definition as_options :: "jsval \<Rightarrow> jsobj" where
  "as_options v = (case v of JObj kvs \<Rightarrow> kvs | _ \<Rightarrow> [])"

definition OrderDialog_run :: "(jsval \<Rightarrow> string set) \<Rightarrow> jsval \<Rightarrow> run_state \<Rightarrow> outcome \<times> run_state" where
  "OrderDialog_run types opts st =
     waterfall awaits (OrderDialog_steps types) (as_options opts) Undefined st"

text \<open>The children of the main dialog: the order form under the id \<open>orderDialog\<close>, and
  the text prompt.\<close>

definition MainDialog_children :: "(jsval \<Rightarrow> string set) \<Rightarrow> child" where
  "MainDialog_children types d opts st =
     (if d = ''orderDialog'' then OrderDialog_run types opts st else awaits d opts st)"

definition MainDialog_run ::
  "(jsval \<Rightarrow> string set) \<Rightarrow> (jsval \<Rightarrow> string) \<Rightarrow> (jsval \<Rightarrow> string) \<Rightarrow> MainDialog
     \<Rightarrow> jsval \<Rightarrow> run_state \<Rightarrow> outcome \<times> run_state" where
  "MainDialog_run types topIntent toNaturalLanguage this opts st =
     waterfall (MainDialog_children types) (MainDialog_steps topIntent toNaturalLanguage this)
       (as_options opts) Undefined st"

section \<open>Notions used to state the properties\<close>

text \<open>The events that record a call of the recognizer.\<close>

fun is_LuisQuery :: "event \<Rightarrow> bool" where
  "is_LuisQuery (LuisQuery c) = True"
| "is_LuisQuery e = False"

text \<open>
  Modelled from the spec: the type of a recognizer result (the recognizer library declares
  it), in the layout that \<open>getDeliveryDate\<close> reads. The result is an object whose
  \<open>entities\<close> is an object; the \<open>datetime\<close> entity, when there is one, is an array of
  objects; the \<open>timex\<close> of such an object, when there is one, is an array of strings.
\<close>

fun is_JStr :: "jsval \<Rightarrow> bool" where
  "is_JStr (JStr s) = True"
| "is_JStr v = False"

definition timex_shape :: "jsval \<Rightarrow> bool" where
  "timex_shape v = (case v of Undefined \<Rightarrow> True | JArr ts \<Rightarrow> list_all is_JStr ts | _ \<Rightarrow> False)"

definition datetime_shape :: "jsval \<Rightarrow> bool" where
  "datetime_shape v =
     (case v of
        Undefined \<Rightarrow> True
      | JArr ds \<Rightarrow>
          list_all (\<lambda>d. case d of JObj kvs \<Rightarrow> timex_shape (get kvs ''timex'') | _ \<Rightarrow> False) ds
      | _ \<Rightarrow> False)"

definition RecognizerResult :: "jsval \<Rightarrow> bool" where
  "RecognizerResult r =
     (case r of
        JObj kvs \<Rightarrow>
          (case get kvs ''entities'' of
             JObj es \<Rightarrow> datetime_shape (get es ''datetime'')
           | _ \<Rightarrow> False)
      | _ \<Rightarrow> False)"

text \<open>The first timex string of the first datetime entity of a result; \<open>undefined\<close> when
  the datetime entity, its first element, its timex list or the first entry of that list
  is missing.\<close>

definition first_timex :: "jsval \<Rightarrow> jsval" where
  "first_timex r =
     (case r of
        JObj kvs \<Rightarrow>
          (case get kvs ''entities'' of
             JObj es \<Rightarrow>
               (case get es ''datetime'' of
                  JArr (JObj d # ds) \<Rightarrow>
                    (case get d ''timex'' of JArr (t # ts) \<Rightarrow> t | _ \<Rightarrow> Undefined)
                | _ \<Rightarrow> Undefined)
           | _ \<Rightarrow> Undefined)
      | _ \<Rightarrow> Undefined)"

section \<open>The date resolver and the TIMEX types, after the specification\<close>

text \<open>
  Modelled from the spec: the definiteness of a date expression, which the code asks of
  \<open>TimexProperty.types\<close> in a package outside the repository. A date expression is a
  string of fields separated by \<open>-\<close>: year, month, day. A field that is left out, or
  that is not a number (a missing year is written \<open>XXXX\<close>), is not known. The expression
  resolves to exactly one calendar date, and has the type \<open>definite\<close>, when it has exactly
  these three fields and all are known. No other type is modelled.
\<close>

definition is_number :: "string \<Rightarrow> bool" where
  "is_number s = (s \<noteq> [] \<and> list_all (\<lambda>c. c \<in> set ''0123456789'') s)"

definition timex_field :: "string \<Rightarrow> nat \<Rightarrow> string option" where
  "timex_field s i =
     (let fields = split_on CHR ''-'' s
      in if i < length fields \<and> is_number (fields ! i) then Some (fields ! i) else None)"

definition timex_year :: "string \<Rightarrow> string option" where "timex_year s = timex_field s 0"
definition timex_month :: "string \<Rightarrow> string option" where "timex_month s = timex_field s 1"
definition timex_day :: "string \<Rightarrow> string option" where "timex_day s = timex_field s 2"

definition TimexProperty_types :: "jsval \<Rightarrow> string set" where
  "TimexProperty_types timex =
     (case timex of
        JStr s \<Rightarrow>
          (if length (split_on CHR ''-'' s) = 3
                \<and> timex_year s \<noteq> None \<and> timex_month s \<noteq> None \<and> timex_day s \<noteq> None
           then {''definite''} else {})
      | _ \<Rightarrow> {})"

text \<open>
  Modelled from the spec: the date resolver dialog (\<open>dateResolverDialog.js\<close>, which the
  order form begins and which is not among the sources). Given a date expression, possibly
  absent, it returns a definite one: while the expression is absent it asks for a date,
  while it is not definite it asks again with a clarifying question, and it takes the
  user's next reply as the new expression (\<open>undefined\<close> for a reply that does not parse).
  There is no bound on the retries: with the replies so far used up, the resolver is
  waiting and has no result. The function returns the prompts issued and the result.
\<close>

datatype resolver_prompt = AskDate | Clarify

fun DateAmbiguityResolver ::
  "(jsval \<Rightarrow> string set) \<Rightarrow> jsval \<Rightarrow> jsval list \<Rightarrow> resolver_prompt list \<times> jsval option" where
  "DateAmbiguityResolver types date [] =
     (if \<not> truthy date then ([AskDate], None)
      else if isAmbiguous types date then ([Clarify], None)
      else ([], Some date))"
| "DateAmbiguityResolver types date (reply # replies) =
     (if \<not> truthy date
      then (case DateAmbiguityResolver types reply replies of (ps, r) \<Rightarrow> (AskDate # ps, r))
      else if isAmbiguous types date
      then (case DateAmbiguityResolver types reply replies of (ps, r) \<Rightarrow> (Clarify # ps, r))
      else ([], Some date))"

section \<open>Basic facts\<close>

lemma get_put: "get (put obj k v) k' = (if k' = k then v else get obj k')"
  by (induction obj) (auto simp: get_def)

lemma split_on_not_Nil: "split_on c s \<noteq> []"
  by (induction s) (auto split: list.splits)

lemma hd_split_on: "hd (split_on c s) = takeWhile (\<lambda>x. x \<noteq> c) s"
proof (induction s)
  case Nil
  show ?case by simp
next
  case (Cons x xs)
  obtain p ps where "split_on c xs = p # ps"
    using split_on_not_Nil [of c xs] by (cases "split_on c xs") auto
  with Cons show ?case by auto
qed

lemma split_on_nth_0: "split_on c s ! 0 = takeWhile (\<lambda>x. x \<noteq> c) s"
  using split_on_not_Nil [of c s] hd_split_on [of c s] by (simp add: hd_conv_nth)

lemma takeWhile_without: "c \<notin> set (takeWhile (\<lambda>x. x \<noteq> c) s)"
  by (induction s) auto

lemma luisIsConfigured_total: "\<exists>v. luisIsConfigured config = Some v"
  by (cases config) (auto simp: luisIsConfigured_def)

lemma OrderRecognizer_new_total: "\<exists>r. OrderRecognizer_new L config = Some r"
  using luisIsConfigured_total [of config] by (auto simp: OrderRecognizer_new_def)

lemmas order_defs =
  itemStep_def deliveryDateStep_def confirmStep_def OrderDialog_finalStep_def
  OrderDialog_run_def OrderDialog_steps_def as_options_def awaits_def Let_def
  TEXT_PROMPT_def CONFIRM_PROMPT_def DATE_RESOLVER_DIALOG_def

lemmas main_defs =
  introStep_def actStep_def MainDialog_finalStep_def showWarningForUnsupportedItems_def
  isConfigured_def executeLuisQuery_def MainDialog_run_def MainDialog_steps_def
  MainDialog_children_def as_options_def awaits_def Let_def

section \<open>What a waterfall adds to the trace\<close>

text \<open>
  A waterfall only appends to the trace, and what it appends has every property \<open>P\<close>
  that holds of what its steps send, of what its children append, and of the records of
  the prompts and sub-dialogs begun.
\<close>

lemma waterfall_trace:
  assumes steps: "\<And>s c r. s \<in> set steps \<Longrightarrow> s c = Some r \<Longrightarrow> list_all P (sent r)"
      and child: "\<And>d opts' st. \<exists>evs. trace (snd (child d opts' st)) = trace st @ evs \<and> list_all P evs"
      and prompted: "\<And>d m. P (Prompted d m)"
      and began: "\<And>d opts'. P (Began d opts')"
  shows "\<exists>evs. trace (snd (waterfall child steps opts res st)) = trace st @ evs \<and> list_all P evs"
  using steps
proof (induction steps arbitrary: opts res st)
  case Nil
  show ?case by simp
next
  case (Cons s ss)
  have IH: "\<exists>evs. trace (snd (waterfall child ss opts' res' st')) = trace st' @ evs \<and> list_all P evs"
    for opts' res' st'
  proof (rule Cons.IH)
    fix s' c r
    assume "s' \<in> set ss" and "s' c = Some r"
    then show "list_all P (sent r)" using Cons.prems [of s' c r] by simp
  qed
  show ?case
  proof (cases "s \<lparr>turnContext = activity st, options = opts, result = res\<rparr>")
    case None
    then show ?thesis by simp
  next
    case (Some r)
    have sent: "list_all P (sent r)"
      using Cons.prems [of s _ r] Some by simp
    let ?st1 = "st\<lparr>trace := trace st @ sent r\<rparr>"
    show ?thesis
    proof (cases "returned r")
      case (Next v)
      obtain evs where "trace (snd (waterfall child ss (options_after r) v ?st1)) = trace ?st1 @ evs"
        and "list_all P evs" using IH by blast
      with Some Next sent show ?thesis by (simp add: Let_def)
    next
      case (EndDialog v)
      with Some sent show ?thesis by (simp add: Let_def)
    next
      case (ReplaceDialog d o')
      with Some sent show ?thesis by (simp add: Let_def)
    next
      case (Prompt d m)
      let ?st2 = "?st1\<lparr>trace := trace ?st1 @ [Prompted d m]\<rparr>"
      obtain out st3 where c: "child d (JObj [(''prompt'', JStr m)]) ?st2 = (out, st3)"
        by (cases "child d (JObj [(''prompt'', JStr m)]) ?st2")
      obtain evs where e: "trace st3 = trace ?st2 @ evs" "list_all P evs"
        using child [of d "JObj [(''prompt'', JStr m)]" ?st2] c by auto
      show ?thesis
      proof (cases out)
        case (Ended v)
        obtain evs' where "trace (snd (waterfall child ss (options_after r) v st3)) = trace st3 @ evs'"
          and "list_all P evs'" using IH by blast
        with Some Prompt c e Ended sent prompted show ?thesis by (simp add: Let_def)
      qed (use Some Prompt c e sent prompted in \<open>simp_all add: Let_def\<close>)
    next
      case (BeginDialog d o')
      let ?st2 = "?st1\<lparr>trace := trace ?st1 @ [Began d o']\<rparr>"
      obtain out st3 where c: "child d o' ?st2 = (out, st3)"
        by (cases "child d o' ?st2")
      obtain evs where e: "trace st3 = trace ?st2 @ evs" "list_all P evs"
        using child [of d o' ?st2] c by auto
      show ?thesis
      proof (cases out)
        case (Ended v)
        obtain evs' where "trace (snd (waterfall child ss (options_after r) v st3)) = trace st3 @ evs'"
          and "list_all P evs'" using IH by blast
        with Some BeginDialog c e Ended sent began show ?thesis by (simp add: Let_def)
      qed (use Some BeginDialog c e sent began in \<open>simp_all add: Let_def\<close>)
    qed
  qed
qed

lemma awaits_trace: "\<exists>evs. trace (snd (awaits d opts st)) = trace st @ evs \<and> list_all P evs"
  by (auto simp: awaits_def split: list.splits)

lemma OrderDialog_run_no_query:
  "\<exists>evs. trace (snd (OrderDialog_run types opts st)) = trace st @ evs
         \<and> list_all (\<lambda>e. \<not> is_LuisQuery e) evs"
  unfolding OrderDialog_run_def
  by (rule waterfall_trace)
     (auto simp: OrderDialog_steps_def itemStep_def deliveryDateStep_def confirmStep_def
        OrderDialog_finalStep_def Let_def awaits_trace split: if_splits)

lemma MainDialog_children_no_query:
  "\<exists>evs. trace (snd (MainDialog_children types d opts st)) = trace st @ evs
         \<and> list_all (\<lambda>e. \<not> is_LuisQuery e) evs"
  by (simp add: MainDialog_children_def OrderDialog_run_no_query awaits_trace)

lemma MainDialog_finalStep_no_query:
  "\<exists>evs. trace (snd (waterfall (MainDialog_children types)
                    [MainDialog_finalStep toNaturalLanguage this] opts res st)) = trace st @ evs
         \<and> list_all (\<lambda>e. \<not> is_LuisQuery e) evs"
  by (rule waterfall_trace)
     (auto simp: MainDialog_finalStep_def Let_def MainDialog_children_no_query
           split: if_splits Option.bind_splits)

section \<open>The constructor of the main dialog\<close>

text \<open>
  C7. Constructing the main dialog without a recognizer, or with a recognizer but without
  the order dialog, throws the error naming the missing parameter. With both present the
  construction succeeds and keeps the recognizer, whatever the recognizer is; in particular
  a recognizer built from no configuration is unconfigured, and the construction with it
  succeeds as well.
\<close>

theorem MainDialog_new_collaborators:
  "MainDialog_new None anyDialog
     = Inl (Error ''[MainDialog]: Missing parameter 'luisRecognizer' is required'')
   \<and> MainDialog_new (Some luis) None
     = Inl (Error ''[MainDialog]: Missing parameter 'orderDialog' is required'')
   \<and> MainDialog_new (Some luis) (Some orderDialog)
     = Inr \<lparr>dialog_id = ''MainDialog'',
            dialogs = [''TextPrompt'', dialog_id orderDialog, ''mainWaterfallDialog''],
            initialDialogId = ''mainWaterfallDialog'',
            luisRecognizer = luis\<rparr>
   \<and> (\<exists>r m. OrderRecognizer_new LuisRecognizer Undefined = Some r \<and> \<not> isConfigured r
          \<and> MainDialog_new (Some r) (Some orderDialog) = Inr m \<and> luisRecognizer m = r)"
  by (simp add: MainDialog_new_def MAIN_WATERFALL_DIALOG_def OrderRecognizer_new_def
        luisIsConfigured_def isConfigured_def)

section \<open>The item step of the order form\<close>

text \<open>
  C8. For every order record the item step sends nothing and leaves the record as it is.
  When the item is set (a truthy value: present and not the empty string) it passes the
  item on with \<open>next\<close>, without a prompt; otherwise it prompts for text. Whatever result
  then reaches the date step, the user's reply after a prompt, is stored unchanged as the
  item, and no other field of the record changes at that point.
\<close>

theorem itemStep_skips_or_prompts:
  "itemStep \<lparr>turnContext = a, options = opts, result = res\<rparr>
     = Some \<lparr>options_after = opts, sent = [],
             returned = (if truthy (get opts ''item'') then Next (get opts ''item'')
                         else Prompt ''textPrompt'' ''What would you like to order?'')\<rparr>
   \<and> map_option options_after
         (deliveryDateStep types \<lparr>turnContext = reply, options = opts, result = reply\<rparr>)
       = Some (put opts ''item'' reply)
   \<and> get (put opts ''item'' reply) ''item'' = reply
   \<and> (\<forall>k. k \<noteq> ''item'' \<longrightarrow> get (put opts ''item'' reply) k = get opts k)"
  by (simp add: itemStep_def TEXT_PROMPT_def deliveryDateStep_def get_put Let_def)

theorem itemStep_skips_or_prompts_witness:
  "itemStep \<lparr>turnContext = JStr ''hello'', options = [], result = Undefined\<rparr>
     = Some \<lparr>options_after = [], sent = [],
             returned = Prompt ''textPrompt'' ''What would you like to order?''\<rparr>
   \<and> map_option options_after
         (deliveryDateStep (\<lambda>timex. {})
            \<lparr>turnContext = JStr ''bicycle'', options = [], result = JStr ''bicycle''\<rparr>)
       = Some [(''item'', JStr ''bicycle'')]
   \<and> itemStep \<lparr>turnContext = JStr ''Deliver rice'',
               options = [(''item'', JStr ''rice''), (''deliveryDate'', Undefined)],
               result = Undefined\<rparr>
     = Some \<lparr>options_after = [(''item'', JStr ''rice''), (''deliveryDate'', Undefined)], sent = [],
             returned = Next (JStr ''rice'')\<rparr>"
proof -
  have "get [] ''item'' = Undefined"
    and "get [(''item'', JStr ''rice''), (''deliveryDate'', Undefined)] ''item'' = JStr ''rice''"
    by (simp_all add: get_def)
  then show ?thesis
    using itemStep_skips_or_prompts
            [where a = "JStr ''hello''" and opts = "[]" and res = Undefined
               and types = "\<lambda>timex. {}" and reply = "JStr ''bicycle''"]
          itemStep_skips_or_prompts
            [where a = "JStr ''Deliver rice''"
               and opts = "[(''item'', JStr ''rice''), (''deliveryDate'', Undefined)]"
               and res = Undefined and types = "\<lambda>timex. {}" and reply = Undefined]
    by simp
qed

section \<open>The date step of the order form\<close>

text \<open>
  The date step tests the property \<open>DeliveryDate\<close>, while the date is kept in
  \<open>deliveryDate\<close>. A record without a truthy \<open>DeliveryDate\<close> property therefore always
  goes to the date resolver, whatever its \<open>deliveryDate\<close> is and whatever the TIMEX
  library says about it. The records the main dialog builds have no such property.
\<close>

lemma deliveryDateStep_without_DeliveryDate:
  assumes "\<not> truthy (get opts ''DeliveryDate'')"
  shows "deliveryDateStep types \<lparr>turnContext = a, options = opts, result = res\<rparr>
         = Some \<lparr>options_after = put opts ''item'' res, sent = [],
                 returned = BeginDialog DATE_RESOLVER_DIALOG
                              (JObj [(''date'', get opts ''deliveryDate'')])\<rparr>"
  using assms by (simp add: deliveryDateStep_def get_put)

text \<open>
  C1. The specification has a pre-filled definite date used directly, without the date
  resolver, so that the form goes straight to the confirmation; the doc comment of the
  step says the same. The code does otherwise. At the record
  \<open>{item: "rice", deliveryDate: "2020-03-22"}\<close>, with a TIMEX library that classifies the
  date as definite, the date step begins the date resolver dialog, and the form run from
  its start is waiting in the resolver, not at the confirmation prompt.
\<close>

theorem deliveryDateStep_definite_date_begins_resolver:
  "deliveryDateStep (\<lambda>timex. {''definite''})
     \<lparr>turnContext = JStr ''Deliver 10 kg rice on March 22, 2020'',
      options = [(''item'', JStr ''rice''), (''deliveryDate'', JStr ''2020-03-22'')],
      result = JStr ''rice''\<rparr>
   = Some \<lparr>options_after = [(''item'', JStr ''rice''), (''deliveryDate'', JStr ''2020-03-22'')],
           sent = [],
           returned = BeginDialog ''dateResolverDialog'' (JObj [(''date'', JStr ''2020-03-22'')])\<rparr>
   \<and> \<not> isAmbiguous (\<lambda>timex. {''definite''}) (JStr ''2020-03-22'')
   \<and> OrderDialog_run (\<lambda>timex. {''definite''})
        (JObj [(''item'', JStr ''rice''), (''deliveryDate'', JStr ''2020-03-22'')])
        \<lparr>trace = [], pending = [], activity = JStr ''Deliver 10 kg rice on March 22, 2020''\<rparr>
      = (Waiting,
         \<lparr>trace = [Began ''dateResolverDialog'' (JObj [(''date'', JStr ''2020-03-22'')])],
          pending = [], activity = JStr ''Deliver 10 kg rice on March 22, 2020''\<rparr>)"
  by (simp add: order_defs get_def isAmbiguous_def)

text \<open>In particular the step does not hand the date on with \<open>next\<close>.\<close>

theorem deliveryDateStep_definite_date_witness:
  "\<exists>r. deliveryDateStep (\<lambda>timex. {''definite''})
          \<lparr>turnContext = JStr ''Deliver 10 kg rice on March 22, 2020'',
           options = [(''item'', JStr ''rice''), (''deliveryDate'', JStr ''2020-03-22'')],
           result = JStr ''rice''\<rparr> = Some r
       \<and> returned r \<noteq> Next (JStr ''2020-03-22'')"
  using deliveryDateStep_definite_date_begins_resolver by simp

section \<open>The end of the order form\<close>

text \<open>
  From the confirmation step on: the date handed to the step is stored, the prompt shows
  item and date, and the form ends with the record when the prompt yields \<open>true\<close> and with
  nothing otherwise.
\<close>

lemma confirm_then_final:
  assumes "pending st = c # rest"
  shows "waterfall awaits [confirmStep, OrderDialog_finalStep] opts d st
         = (Ended (if c = JBool True then JObj (put opts ''deliveryDate'' d) else Undefined),
            st\<lparr>trace := trace st @ [Prompted CONFIRM_PROMPT
                   (''Please confirm, I have you ordering: '' @ toString (get opts ''item'')
                     @ '' on: '' @ toString d @ ''. Is this correct?'')],
               pending := rest, activity := c\<rparr>)"
  using assms
  by (simp add: confirmStep_def OrderDialog_finalStep_def awaits_def get_put Let_def)

text \<open>
  C3. Take any run of the order form in which the confirmation prompt yields \<open>true\<close>: the
  pending results are the user's reply to the item prompt (when the item was asked for),
  the resolved date (when the resolver was begun), and then \<open>true\<close>. The form ends with
  the order record, whose item is the value stored by the date step and whose
  \<open>deliveryDate\<close> is the value stored by the confirmation step; the final step returns
  the record it finds, with no field changed.
\<close>

theorem OrderDialog_yes_returns_record:
  fixes opts :: jsobj and reply resolved :: jsval and types :: "jsval \<Rightarrow> string set"
  defines "item \<equiv> (if truthy (get opts ''item'') then get opts ''item'' else reply)"
  defines "resolve \<equiv> (\<not> truthy (get opts ''DeliveryDate'')
                          \<or> isAmbiguous types (get opts ''deliveryDate''))"
  defines "date \<equiv> (if resolve then resolved else get opts ''deliveryDate'')"
  assumes "pending st = (if truthy (get opts ''item'') then [] else [reply])
                          @ (if resolve then [resolved] else []) @ JBool True # rest"
  shows "fst (OrderDialog_run types (JObj opts) st)
           = Ended (JObj (put (put opts ''item'' item) ''deliveryDate'' date))
         \<and> get (put (put opts ''item'' item) ''deliveryDate'' date) ''item'' = item
         \<and> get (put (put opts ''item'' item) ''deliveryDate'' date) ''deliveryDate'' = date
         \<and> OrderDialog_finalStep \<lparr>turnContext = a, options = confirmed, result = JBool True\<rparr>
             = Some \<lparr>options_after = confirmed, sent = [], returned = EndDialog (JObj confirmed)\<rparr>"
  using assms by (auto simp add: order_defs get_put)

theorem OrderDialog_yes_returns_record_witness:
  "fst (OrderDialog_run (\<lambda>timex. {}) (JObj [])
          \<lparr>trace = [], pending = [JStr ''bicycle'', JStr ''2020-03-22'', JBool True],
           activity = Undefined\<rparr>)
   = Ended (JObj [(''item'', JStr ''bicycle''), (''deliveryDate'', JStr ''2020-03-22'')])"
  using OrderDialog_yes_returns_record
          [where st = "\<lparr>trace = [], pending = [JStr ''bicycle'', JStr ''2020-03-22'', JBool True],
                         activity = Undefined\<rparr>"
             and opts = "[]" and reply = "JStr ''bicycle''" and types = "\<lambda>timex. {}"
             and resolved = "JStr ''2020-03-22''" and rest = "[]"]
  by (simp add: get_def)

text \<open>
  C4. In any run of the order form in which the confirmation prompt yields something
  other than \<open>true\<close>, the form ends with \<open>undefined\<close>: no order record reaches the caller.
  The final step of the main dialog, resumed with that result, sends nothing (the run
  state is unchanged) and restarts the main dialog.
\<close>

theorem OrderDialog_no_returns_nothing:
  fixes opts :: jsobj and types :: "jsval \<Rightarrow> string set"
  defines "resolve \<equiv> (\<not> truthy (get opts ''DeliveryDate'')
                          \<or> isAmbiguous types (get opts ''deliveryDate''))"
  assumes "pending st = (if truthy (get opts ''item'') then [] else [reply])
                          @ (if resolve then [resolved] else []) @ c # rest"
      and "c \<noteq> JBool True"
  shows "fst (OrderDialog_run types (JObj opts) st) = Ended Undefined
         \<and> waterfall (MainDialog_children types) [MainDialog_finalStep toNaturalLanguage this]
               mainOptions Undefined st'
            = (Replaced (initialDialogId this)
                 (JObj [(''restartMsg'', JStr ''What else can I do for you?'')]), st')"
  using assms by (auto simp add: order_defs get_put MainDialog_finalStep_def)

theorem OrderDialog_no_returns_nothing_witness:
  "fst (OrderDialog_run (\<lambda>timex. {}) (JObj [(''item'', JStr ''rice''), (''deliveryDate'', Undefined)])
          \<lparr>trace = [], pending = [JStr ''2020-03-22'', JBool False], activity = Undefined\<rparr>)
   = Ended Undefined
   \<and> waterfall (MainDialog_children (\<lambda>timex. {}))
        [MainDialog_finalStep (\<lambda>date. ''March 22, 2020'')
           \<lparr>dialog_id = ''MainDialog'', dialogs = [], initialDialogId = ''mainWaterfallDialog'',
            luisRecognizer = \<lparr>recognizer = None\<rparr>\<rparr>]
        [] Undefined \<lparr>trace = [], pending = [], activity = JBool False\<rparr>
     = (Replaced ''mainWaterfallDialog''
          (JObj [(''restartMsg'', JStr ''What else can I do for you?'')]),
        \<lparr>trace = [], pending = [], activity = JBool False\<rparr>)"
  using OrderDialog_no_returns_nothing
          [where st = "\<lparr>trace = [], pending = [JStr ''2020-03-22'', JBool False],
                         activity = Undefined\<rparr>"
             and opts = "[(''item'', JStr ''rice''), (''deliveryDate'', Undefined)]"
             and reply = Undefined and types = "\<lambda>timex. {}"
             and resolved = "JStr ''2020-03-22''" and c = "JBool False" and rest = "[]"
             and toNaturalLanguage = "\<lambda>date. ''March 22, 2020''"
             and this = "\<lparr>dialog_id = ''MainDialog'', dialogs = [],
                            initialDialogId = ''mainWaterfallDialog'',
                            luisRecognizer = \<lparr>recognizer = None\<rparr>\<rparr>"
             and mainOptions = "[]"
             and st' = "\<lparr>trace = [], pending = [], activity = JBool False\<rparr>"]
  by (simp add: get_def)

section \<open>The main dialog without a configured recognizer\<close>

text \<open>
  C2. When the recognizer is not configured, the second step of the main dialog begins
  the order form with the empty record \<open>{}\<close>, sends nothing and calls nothing, whatever the
  step context (and so whatever the user wrote). A run of the main dialog from its start
  then sends the note, begins the order form with the empty record, and whatever follows,
  for any pending replies, contains no call of the recognizer.
\<close>

theorem unconfigured_begins_empty_order:
  assumes "\<not> isConfigured (luisRecognizer this)"
  shows "actStep topIntent this stepContext
           = Some \<lparr>options_after = options stepContext, sent = [],
                   returned = BeginDialog ''orderDialog'' (JObj [])\<rparr>
         \<and> (\<exists>evs. trace (snd (MainDialog_run types topIntent toNaturalLanguage this opts st))
                  = trace st
                    @ [SendActivity (''NOTE: LUIS is not configured. To enable all capabilities, add ''
                         @ ''`LuisAppId`, `LuisAPIKey` and `LuisAPIHostName` to the .env file.''),
                       Began ''orderDialog'' (JObj [])]
                    @ evs
                \<and> list_all (\<lambda>e. \<not> is_LuisQuery e) evs)"
proof
  show "actStep topIntent this stepContext
           = Some \<lparr>options_after = options stepContext, sent = [],
                   returned = BeginDialog ''orderDialog'' (JObj [])\<rparr>"
    using assms by (simp add: actStep_def)
next
  let ?note = "SendActivity (''NOTE: LUIS is not configured. To enable all capabilities, add ''
                 @ ''`LuisAppId`, `LuisAPIKey` and `LuisAPIHostName` to the .env file.'')"
  let ?st1 = "st\<lparr>trace := trace st @ [?note, Began ''orderDialog'' (JObj [])]\<rparr>"
  obtain out st2 where run: "OrderDialog_run types (JObj []) ?st1 = (out, st2)"
    by (cases "OrderDialog_run types (JObj []) ?st1")
  obtain evs where evs: "trace st2 = trace ?st1 @ evs" "list_all (\<lambda>e. \<not> is_LuisQuery e) evs"
    using OrderDialog_run_no_query [of types "JObj []" ?st1] run by auto
  have main: "MainDialog_run types topIntent toNaturalLanguage this opts st
        = (case out of
             Ended v \<Rightarrow> waterfall (MainDialog_children types)
                          [MainDialog_finalStep toNaturalLanguage this] (as_options opts) v st2
           | other \<Rightarrow> (other, st2))"
    using assms run
    by (simp add: MainDialog_run_def MainDialog_steps_def introStep_def actStep_def
          MainDialog_children_def split: outcome.splits)
  show "\<exists>evs. trace (snd (MainDialog_run types topIntent toNaturalLanguage this opts st))
                  = trace st @ [?note, Began ''orderDialog'' (JObj [])] @ evs
                \<and> list_all (\<lambda>e. \<not> is_LuisQuery e) evs"
  proof (cases out)
    case (Ended v)
    obtain evs' where "trace (snd (waterfall (MainDialog_children types)
                          [MainDialog_finalStep toNaturalLanguage this] (as_options opts) v st2))
                        = trace st2 @ evs'" and "list_all (\<lambda>e. \<not> is_LuisQuery e) evs'"
      using MainDialog_finalStep_no_query by blast
    with main Ended evs show ?thesis by simp
  qed (use main evs in simp_all)
qed

theorem unconfigured_begins_empty_order_witness:
  "actStep (\<lambda>r. ''None'')
     \<lparr>dialog_id = ''MainDialog'', dialogs = [''TextPrompt'', ''orderDialog'', ''mainWaterfallDialog''],
      initialDialogId = ''mainWaterfallDialog'', luisRecognizer = \<lparr>recognizer = None\<rparr>\<rparr>
     \<lparr>turnContext = JStr ''Deliver 10 kg rice on March 22, 2020'', options = [], result = Undefined\<rparr>
   = Some \<lparr>options_after = [], sent = [], returned = BeginDialog ''orderDialog'' (JObj [])\<rparr>
   \<and> (\<exists>evs. trace (snd (MainDialog_run (\<lambda>timex. {}) (\<lambda>r. ''None'') (\<lambda>date. ''March 22, 2020'')
                \<lparr>dialog_id = ''MainDialog'',
                 dialogs = [''TextPrompt'', ''orderDialog'', ''mainWaterfallDialog''],
                 initialDialogId = ''mainWaterfallDialog'', luisRecognizer = \<lparr>recognizer = None\<rparr>\<rparr>
                Undefined
                \<lparr>trace = [], pending = [JStr ''bicycle'', JStr ''2020-03-22'', JBool True],
                 activity = JStr ''Deliver 10 kg rice on March 22, 2020''\<rparr>))
          = [SendActivity (''NOTE: LUIS is not configured. To enable all capabilities, add ''
               @ ''`LuisAppId`, `LuisAPIKey` and `LuisAPIHostName` to the .env file.''),
             Began ''orderDialog'' (JObj [])] @ evs
          \<and> list_all (\<lambda>e. \<not> is_LuisQuery e) evs)"
  using unconfigured_begins_empty_order
          [where this = "\<lparr>dialog_id = ''MainDialog'',
                           dialogs = [''TextPrompt'', ''orderDialog'', ''mainWaterfallDialog''],
                           initialDialogId = ''mainWaterfallDialog'',
                           luisRecognizer = \<lparr>recognizer = None\<rparr>\<rparr>"
             and topIntent = "\<lambda>r. ''None''"
             and stepContext = "\<lparr>turnContext = JStr ''Deliver 10 kg rice on March 22, 2020'',
                                  options = [], result = Undefined\<rparr>"
             and types = "\<lambda>timex. {}" and toNaturalLanguage = "\<lambda>date. ''March 22, 2020''"
             and opts = Undefined
             and st = "\<lparr>trace = [], pending = [JStr ''bicycle'', JStr ''2020-03-22'', JBool True],
                           activity = JStr ''Deliver 10 kg rice on March 22, 2020''\<rparr>"]
  by (simp add: isConfigured_def)

section \<open>The main dialog with a configured recognizer\<close>

text \<open>
  C5. Let the recognizer be configured, the top intent of its result be \<open>PlaceOrder\<close>, and
  \<open>getDeliverEntities\<close> and \<open>getDeliveryDate\<close> return. The step then queries the
  recognizer, logs the record and begins the order form with the record whose item is the
  resolved catalog item \<open>itemList\<close>. It sends the warning, which lists the recognized
  phrase, exactly when a phrase was recognized (\<open>deliver\<close> is truthy) and no catalog item
  was resolved (\<open>itemList\<close> is not); the item of the record is then that missing
  \<open>itemList\<close>. When a catalog item was resolved, no warning is sent.
\<close>

theorem actStep_PlaceOrder_warns_unsupported:
  assumes "recognizer (luisRecognizer this) = Some recognize"
      and "topIntent (recognize utterance) = ''PlaceOrder''"
      and "getDeliverEntities (recognize utterance) = Some entities"
      and "getDeliveryDate (recognize utterance) = Some date"
  shows "actStep topIntent this \<lparr>turnContext = utterance, options = opts, result = res\<rparr>
           = Some \<lparr>options_after = opts,
                   sent = [LuisQuery utterance]
                          @ (if truthy (get entities ''deliver'') \<and> \<not> truthy (get entities ''itemList'')
                             then [SendActivity (''Sorry but the following items are not deliverable: ''
                                     @ toString (get entities ''deliver''))]
                             else [])
                          @ [ConsoleLog ''LUIS extracted these order details:''
                               [(''item'', get entities ''itemList''), (''deliveryDate'', date)]],
                   returned = BeginDialog ''orderDialog''
                                (JObj [(''item'', get entities ''itemList''), (''deliveryDate'', date)])\<rparr>"
  using assms by (simp add: main_defs)

theorem actStep_PlaceOrder_warns_unsupported_witness:
  "actStep (\<lambda>r. ''PlaceOrder'')
     \<lparr>dialog_id = ''MainDialog'', dialogs = [''TextPrompt'', ''orderDialog'', ''mainWaterfallDialog''],
      initialDialogId = ''mainWaterfallDialog'',
      luisRecognizer = \<lparr>recognizer = Some (\<lambda>context.
        JObj [(''entities'',
               JObj [(''$instance'', JObj [(''Deliver'', JArr [JObj [(''text'', JStr ''a bicycle'')]])]),
                     (''Deliver'', JArr [JObj []])])])\<rparr>\<rparr>
     \<lparr>turnContext = JStr ''Deliver a bicycle'', options = [], result = JStr ''Deliver a bicycle''\<rparr>
   = Some \<lparr>options_after = [],
           sent = [LuisQuery (JStr ''Deliver a bicycle''),
                   SendActivity ''Sorry but the following items are not deliverable: a bicycle'',
                   ConsoleLog ''LUIS extracted these order details:''
                     [(''item'', Undefined), (''deliveryDate'', Undefined)]],
           returned = BeginDialog ''orderDialog''
                        (JObj [(''item'', Undefined), (''deliveryDate'', Undefined)])\<rparr>
   \<and> actStep (\<lambda>r. ''PlaceOrder'')
     \<lparr>dialog_id = ''MainDialog'', dialogs = [''TextPrompt'', ''orderDialog'', ''mainWaterfallDialog''],
      initialDialogId = ''mainWaterfallDialog'',
      luisRecognizer = \<lparr>recognizer = Some (\<lambda>context.
        JObj [(''entities'',
               JObj [(''$instance'', JObj [(''Deliver'', JArr [JObj [(''text'', JStr ''10 kg rice'')]])]),
                     (''Deliver'', JArr [JObj [(''ItemList'', JArr [JArr [JStr ''rice'']])]]),
                     (''datetime'', JArr [JObj [(''timex'', JArr [JStr ''2020-03-22''])]])])])\<rparr>\<rparr>
     \<lparr>turnContext = JStr ''Deliver 10 kg rice on March 22, 2020'', options = [],
      result = JStr ''Deliver 10 kg rice on March 22, 2020''\<rparr>
   = Some \<lparr>options_after = [],
           sent = [LuisQuery (JStr ''Deliver 10 kg rice on March 22, 2020''),
                   ConsoleLog ''LUIS extracted these order details:''
                     [(''item'', JStr ''rice''), (''deliveryDate'', JStr ''2020-03-22'')]],
           returned = BeginDialog ''orderDialog''
                        (JObj [(''item'', JStr ''rice''), (''deliveryDate'', JStr ''2020-03-22'')])\<rparr>"
proof -
  let ?bicycle = "JObj [(''entities'',
               JObj [(''$instance'', JObj [(''Deliver'', JArr [JObj [(''text'', JStr ''a bicycle'')]])]),
                     (''Deliver'', JArr [JObj []])])]"
  let ?rice = "JObj [(''entities'',
               JObj [(''$instance'', JObj [(''Deliver'', JArr [JObj [(''text'', JStr ''10 kg rice'')]])]),
                     (''Deliver'', JArr [JObj [(''ItemList'', JArr [JArr [JStr ''rice'']])]]),
                     (''datetime'', JArr [JObj [(''timex'', JArr [JStr ''2020-03-22''])]])])]"
  have b: "getDeliverEntities ?bicycle = Some [(''deliver'', JStr ''a bicycle''), (''itemList'', Undefined)]"
    "getDeliveryDate ?bicycle = Some Undefined"
    by (simp_all add: getDeliverEntities_def getDeliveryDate_def get_def)
  have r: "getDeliverEntities ?rice = Some [(''deliver'', JStr ''10 kg rice''), (''itemList'', JStr ''rice'')]"
    "getDeliveryDate ?rice = Some (JStr ''2020-03-22'')"
    by (simp_all add: getDeliverEntities_def getDeliveryDate_def get_def)
  show ?thesis
    using actStep_PlaceOrder_warns_unsupported
            [where topIntent = "\<lambda>r. ''PlaceOrder''" and recognize = "\<lambda>context. ?bicycle"
               and utterance = "JStr ''Deliver a bicycle''" and opts = "[]"
               and res = "JStr ''Deliver a bicycle''", OF _ _ b]
          actStep_PlaceOrder_warns_unsupported
            [where topIntent = "\<lambda>r. ''PlaceOrder''" and recognize = "\<lambda>context. ?rice"
               and utterance = "JStr ''Deliver 10 kg rice on March 22, 2020''" and opts = "[]"
               and res = "JStr ''Deliver 10 kg rice on March 22, 2020''", OF _ _ r]
    by (simp add: get_def)
qed

text \<open>
  C6. Let the recognizer be configured and the top intent of its result for the user's
  reply be anything but \<open>PlaceOrder\<close>. The second step then sends the message that the
  request was not understood, leaves the options as they are and goes on with \<open>next\<close>; a
  run of the main dialog that receives this reply ends the turn by restarting the main
  dialog, having only prompted, queried the recognizer and sent that message: the order
  form is not begun, and nothing else in the run state changes.
\<close>

theorem other_intent_not_understood:
  assumes "recognizer (luisRecognizer this) = Some recognize"
      and "pending st = utterance # rest"
      and "topIntent (recognize utterance) \<noteq> ''PlaceOrder''"
  shows "actStep topIntent this \<lparr>turnContext = utterance, options = opts, result = utterance\<rparr>
           = Some \<lparr>options_after = opts,
                   sent = [LuisQuery utterance,
                           SendActivity (''Sorry, I didn't get that. Please try asking in a different way (intent was ''
                             @ topIntent (recognize utterance) @ '')'')],
                   returned = Next Undefined\<rparr>
         \<and> MainDialog_run types topIntent toNaturalLanguage this (JObj opts) st
           = (Replaced (initialDialogId this)
                (JObj [(''restartMsg'', JStr ''What else can I do for you?'')]),
              st\<lparr>trace := trace st
                    @ [Prompted ''TextPrompt''
                         (if truthy (get opts ''restartMsg'') then toString (get opts ''restartMsg'')
                          else ''What can I help you with today?'' @ [CHR 0x0A]
                                 @ ''Say something like '' @ [CHR 0x22]
                                 @ ''Deliver 10 kg rice on March 22, 2020'' @ [CHR 0x22]),
                       LuisQuery utterance,
                       SendActivity (''Sorry, I didn't get that. Please try asking in a different way (intent was ''
                         @ topIntent (recognize utterance) @ '')'')],
                 pending := rest, activity := utterance\<rparr>)"
  using assms by (simp add: main_defs)

theorem other_intent_not_understood_witness:
  "MainDialog_run (\<lambda>timex. {}) (\<lambda>r. ''None'') (\<lambda>date. ''March 22, 2020'')
     \<lparr>dialog_id = ''MainDialog'', dialogs = [''TextPrompt'', ''orderDialog'', ''mainWaterfallDialog''],
      initialDialogId = ''mainWaterfallDialog'',
      luisRecognizer = \<lparr>recognizer = Some (\<lambda>context. JObj [(''entities'', JObj [])])\<rparr>\<rparr>
     (JObj [(''restartMsg'', JStr ''What else can I do for you?'')])
     \<lparr>trace = [], pending = [JStr ''what is the weather''], activity = Undefined\<rparr>
   = (Replaced ''mainWaterfallDialog''
        (JObj [(''restartMsg'', JStr ''What else can I do for you?'')]),
      \<lparr>trace = [Prompted ''TextPrompt'' ''What else can I do for you?'',
                LuisQuery (JStr ''what is the weather''),
                SendActivity ''Sorry, I didn't get that. Please try asking in a different way (intent was None)''],
       pending = [], activity = JStr ''what is the weather''\<rparr>)"
  using other_intent_not_understood
          [where this = "\<lparr>dialog_id = ''MainDialog'',
                           dialogs = [''TextPrompt'', ''orderDialog'', ''mainWaterfallDialog''],
                           initialDialogId = ''mainWaterfallDialog'',
                           luisRecognizer = \<lparr>recognizer = Some (\<lambda>context. JObj [(''entities'', JObj [])])\<rparr>\<rparr>"
             and recognize = "\<lambda>context. JObj [(''entities'', JObj [])]"
             and topIntent = "\<lambda>r. ''None''"
             and st = "\<lparr>trace = [], pending = [JStr ''what is the weather''], activity = Undefined\<rparr>"
             and utterance = "JStr ''what is the weather''" and rest = "[]"
             and opts = "[(''restartMsg'', JStr ''What else can I do for you?'')]"
             and types = "\<lambda>timex. {}" and toNaturalLanguage = "\<lambda>date. ''March 22, 2020''"]
  by (simp add: get_def)

section \<open>The delivery date of a recognizer result\<close>

lemma is_JStr_iff: "is_JStr v \<longleftrightarrow> (\<exists>s. v = JStr s)"
  by (cases v) auto

lemma timex_shape_cases:
  assumes "timex_shape v"
  obtains "v = Undefined" | ts where "v = JArr ts" and "list_all is_JStr ts"
  using assms by (cases v) (auto simp: timex_shape_def)

lemma datetime_shape_cases:
  assumes "datetime_shape v"
  obtains "v = Undefined" | "v = JArr []"
    | d ds where "v = JArr (JObj d # ds)" and "timex_shape (get d ''timex'')"
proof (cases v)
  case (JArr xs)
  show ?thesis
  proof (cases xs)
    case Nil
    with JArr that show ?thesis by simp
  next
    case (Cons x xs')
    with JArr assms obtain d where "x = JObj d" "timex_shape (get d ''timex'')"
      by (cases x) (auto simp: datetime_shape_def)
    with JArr Cons that show ?thesis by simp
  qed
qed (use assms that in \<open>auto simp: datetime_shape_def\<close>)

lemma RecognizerResult_cases:
  assumes "RecognizerResult r"
  obtains kvs es where "r = JObj kvs" and "get kvs ''entities'' = JObj es"
    and "datetime_shape (get es ''datetime'')"
proof (cases r)
  case (JObj kvs)
  with assms obtain es where "get kvs ''entities'' = JObj es" "datetime_shape (get es ''datetime'')"
    by (cases "get kvs ''entities''") (auto simp: RecognizerResult_def)
  with JObj that show ?thesis by simp
qed (use assms in \<open>auto simp: RecognizerResult_def\<close>)

text \<open>On a result of the recognizer's shape the function returns, and what it returns is
  decided by the first timex string.\<close>

lemma getDeliveryDate_first_timex:
  assumes "RecognizerResult r"
  shows "getDeliveryDate r
           = Some (if truthy (first_timex r)
                   then JStr (takeWhile (\<lambda>c. c \<noteq> CHR ''T'') (toString (first_timex r)))
                   else Undefined)"
proof -
  obtain kvs es where r: "r = JObj kvs" "get kvs ''entities'' = JObj es"
    and dt: "datetime_shape (get es ''datetime'')"
    using assms by (rule RecognizerResult_cases)
  from dt show ?thesis
  proof (cases rule: datetime_shape_cases)
    case 1
    with r show ?thesis by (simp add: getDeliveryDate_def first_timex_def)
  next
    case 2
    with r show ?thesis by (simp add: getDeliveryDate_def first_timex_def)
  next
    case (3 d ds)
    from 3(2) show ?thesis
    proof (cases rule: timex_shape_cases)
      case 1
      with r 3 show ?thesis by (simp add: getDeliveryDate_def first_timex_def)
    next
      case (2 ts)
      show ?thesis
      proof (cases ts)
        case Nil
        with r 3 2 show ?thesis by (simp add: getDeliveryDate_def first_timex_def)
      next
        case (Cons t ts')
        with 2 obtain s where "t = JStr s" by (auto simp: is_JStr_iff)
        with r 3 2 Cons show ?thesis
          by (simp add: getDeliveryDate_def first_timex_def split_on_nth_0 split_on_not_Nil)
      qed
    qed
  qed
qed

text \<open>
  C10. On every result of the recognizer's shape \<open>getDeliveryDate\<close> returns a value (it
  does not throw). The value is \<open>undefined\<close> when the datetime entity, its first element,
  its timex list or the first timex string is absent, an empty first string counting as
  absent, as the code's test \<open>!timex[0]\<close> has it; otherwise it is the first timex string
  up to, and without, its first \<open>T\<close>. What is returned is therefore \<open>undefined\<close> or a
  string without any \<open>T\<close>.
\<close>

theorem getDeliveryDate_total:
  assumes "RecognizerResult r"
  shows "getDeliveryDate r
           = Some (if truthy (first_timex r)
                   then JStr (takeWhile (\<lambda>c. c \<noteq> CHR ''T'') (toString (first_timex r)))
                   else Undefined)
         \<and> (\<exists>v. getDeliveryDate r = Some v
                \<and> (v = Undefined \<or> (\<exists>s. v = JStr s \<and> CHR ''T'' \<notin> set s)))"
  using getDeliveryDate_first_timex [OF assms] takeWhile_without [of "CHR ''T''"]
  by auto

theorem getDeliveryDate_total_witness:
  "getDeliveryDate
     (JObj [(''entities'',
             JObj [(''datetime'', JArr [JObj [(''timex'', JArr [JStr ''2020-03-22T10''])]])])])
     = Some (JStr ''2020-03-22'')
   \<and> getDeliveryDate (JObj [(''entities'', JObj [(''datetime'', JArr [JObj []])])])
     = Some Undefined"
  using getDeliveryDate_total
          [of "JObj [(''entities'',
                      JObj [(''datetime'', JArr [JObj [(''timex'', JArr [JStr ''2020-03-22T10''])]])])]"]
        getDeliveryDate_total
          [of "JObj [(''entities'', JObj [(''datetime'', JArr [JObj []])])]"]
  by (simp add: RecognizerResult_def datetime_shape_def timex_shape_def first_timex_def get_def)

section \<open>Ambiguous dates\<close>

lemma DateAmbiguityResolver_result:
  "DateAmbiguityResolver types date replies = (ps, Some d)
     \<Longrightarrow> truthy d \<and> \<not> isAmbiguous types d"
  by (induction replies arbitrary: date ps) (auto split: if_splits prod.splits)

lemma DateAmbiguityResolver_definite:
  "snd (DateAmbiguityResolver types date replies) = Some d
     \<Longrightarrow> truthy d \<and> \<not> isAmbiguous types d"
  using DateAmbiguityResolver_result [of types date replies _ d]
  by (cases "DateAmbiguityResolver types date replies") simp

text \<open>
  C9. A date expression whose year is not known, or whose day is not known (as in the
  year and month \<open>2020-03\<close>), does not have the type \<open>definite\<close>: \<open>isAmbiguous\<close> holds
  of it. The resolver, given such an expression, prompts and returns nothing, and whatever
  the replies, it never returns that expression. Conversely, an expression that is not
  ambiguous names a year, a month and a day.
\<close>

theorem ambiguous_date_reprompted:
  "(timex_year s = None \<or> timex_day s = None \<longrightarrow>
      isAmbiguous TimexProperty_types (JStr s)
      \<and> DateAmbiguityResolver TimexProperty_types (JStr s) []
          = ([if s = [] then AskDate else Clarify], None)
      \<and> (\<forall>replies. snd (DateAmbiguityResolver TimexProperty_types (JStr s) replies)
                      \<noteq> Some (JStr s)))
   \<and> (\<not> isAmbiguous TimexProperty_types v \<longrightarrow>
        (\<exists>s y m d. v = JStr s \<and> timex_year s = Some y \<and> timex_month s = Some m
                    \<and> timex_day s = Some d))"
proof (intro conjI impI)
  assume "timex_year s = None \<or> timex_day s = None"
  then show amb: "isAmbiguous TimexProperty_types (JStr s)"
    by (auto simp: isAmbiguous_def TimexProperty_types_def)
  then show "DateAmbiguityResolver TimexProperty_types (JStr s) []
          = ([if s = [] then AskDate else Clarify], None)"
    by simp
  show "\<forall>replies. snd (DateAmbiguityResolver TimexProperty_types (JStr s) replies) \<noteq> Some (JStr s)"
    using amb DateAmbiguityResolver_definite [of TimexProperty_types "JStr s" _ "JStr s"] by blast
next
  assume "\<not> isAmbiguous TimexProperty_types v"
  then show "\<exists>s y m d. v = JStr s \<and> timex_year s = Some y \<and> timex_month s = Some m
                    \<and> timex_day s = Some d"
    by (cases v) (auto simp: isAmbiguous_def TimexProperty_types_def split: if_splits)
qed

theorem ambiguous_date_reprompted_witness:
  "isAmbiguous TimexProperty_types (JStr ''2020-03'')
   \<and> DateAmbiguityResolver TimexProperty_types (JStr ''2020-03'') [] = ([Clarify], None)
   \<and> isAmbiguous TimexProperty_types (JStr ''XXXX-03-22'')
   \<and> DateAmbiguityResolver TimexProperty_types (JStr ''XXXX-03-22'') [] = ([Clarify], None)
   \<and> \<not> isAmbiguous TimexProperty_types (JStr ''2020-03-22'')
   \<and> timex_year ''2020-03-22'' = Some ''2020'' \<and> timex_month ''2020-03-22'' = Some ''03''
   \<and> timex_day ''2020-03-22'' = Some ''22''"
proof -
  have d: "timex_day ''2020-03'' = None" and y: "timex_year ''XXXX-03-22'' = None"
    by (simp_all add: timex_day_def timex_year_def timex_field_def is_number_def)
  have n: "\<not> isAmbiguous TimexProperty_types (JStr ''2020-03-22'')"
    by (simp add: isAmbiguous_def TimexProperty_types_def timex_day_def timex_year_def
          timex_month_def timex_field_def is_number_def)
  have f: "timex_year ''2020-03-22'' = Some ''2020''" "timex_month ''2020-03-22'' = Some ''03''"
    "timex_day ''2020-03-22'' = Some ''22''"
    by (simp_all add: timex_day_def timex_year_def timex_month_def timex_field_def is_number_def)
  show ?thesis
    using ambiguous_date_reprompted [of "''2020-03''" "JStr ''2020-03-22''"]
          ambiguous_date_reprompted [of "''XXXX-03-22''" "JStr ''2020-03-22''"] d y n f
    by simp
qed

end
